theory Spec2Isabelle
  imports Main
begin

section \<open>The libFuzzer front end of DeepState\<close>

text \<open>
  A shallow embedding of \<^verbatim>\<open>bin/deepstate/executors/fuzz/libfuzzer.py\<close>: the class
  \<^verbatim>\<open>LibFuzzer\<close> with its methods \<^verbatim>\<open>pre_exec\<close>, \<^verbatim>\<open>cmd\<close> and \<^verbatim>\<open>populate_stats\<close>.
  Python \<^verbatim>\<open>str\<close> and \<^verbatim>\<open>bytes\<close> values are both \<open>string\<close> (a list of 8-bit characters; a
  \<^verbatim>\<open>str\<close> is represented by its UTF-8 encoding), exceptions are values of the type \<open>error\<close>,
  and the mutable attributes of the object are the fields of the record \<open>fuzzer\<close>.
\<close>

subsection \<open>Python values: truthiness and formatting\<close>

type_synonym bytes = string

datatype error =
    FuzzFrontendError string
  | IndexError
  | UnicodeDecodeError
  | FileNotFoundError string
  | OverflowError

text \<open>\<^verbatim>\<open>if x:\<close> on an optional string: \<^verbatim>\<open>None\<close> and the empty string are both false.\<close>

fun truthy_str :: "string option \<Rightarrow> bool" where
  "truthy_str None = False"
| "truthy_str (Some s) = (s \<noteq> [])"

text \<open>\<^verbatim>\<open>if x:\<close> on an optional integer: \<^verbatim>\<open>None\<close> and \<^verbatim>\<open>0\<close> are both false.\<close>

fun truthy_int :: "int option \<Rightarrow> bool" where
  "truthy_int None = False"
| "truthy_int (Some n) = (n \<noteq> 0)"

definition digit_char :: "nat \<Rightarrow> char" where
  "digit_char d = ''0123456789'' ! d"

text \<open>\<^verbatim>\<open>str(n)\<close> for a non-negative integer: its decimal digits.\<close>

fun str_nat :: "nat \<Rightarrow> string" where
  "str_nat n = (if n < 10 then [digit_char n] else str_nat (n div 10) @ [digit_char (n mod 10)])"

declare str_nat.simps [simp del]

text \<open>\<^verbatim>\<open>"{}".format(n)\<close> for a Python \<^verbatim>\<open>int\<close>.\<close>

definition str_int :: "int \<Rightarrow> string" where
  "str_int n = (if n < 0 then ''-'' @ str_nat (nat (- n)) else str_nat (nat n))"

text \<open>
  The digits after the decimal point of \<open>r / 1000\<close> for \<open>r < 1000\<close>: three digits with the
  trailing zeros removed, and \<^verbatim>\<open>0\<close> when nothing is left (Python prints \<^verbatim>\<open>2.0\<close>, not
  \<^verbatim>\<open>2.\<close>).
\<close>

definition str_frac3 :: "nat \<Rightarrow> string" where
  "str_frac3 r =
     (let d = [digit_char (r div 100 mod 10), digit_char (r div 10 mod 10), digit_char (r mod 10)];
          t = rev (dropWhile (\<lambda>c. c = CHR ''0'') (rev d))
      in if t = [] then ''0'' else t)"

text \<open>
  \<^verbatim>\<open>"{}".format(n / 1000)\<close> for a Python \<^verbatim>\<open>int\<close> \<open>n\<close>. In Python 3 the operator \<^verbatim>\<open>/\<close> is
  true division: the result is the \<^verbatim>\<open>float\<close> nearest to the quotient, and \<^verbatim>\<open>format\<close> prints
  the shortest decimal that reads back as that \<^verbatim>\<open>float\<close>.

  For \<open>\<bar>n\<bar> < 10^15\<close> the quotient \<open>n / 1000\<close> is a decimal of at most 15 significant digits
  with at most three of them after the point. A double keeps any two such decimals apart, so
  the text printed is that decimal itself, and it is written out here.

  From \<open>10^15\<close> on the text depends on how the quotient is rounded to a \<^verbatim>\<open>float\<close> (for
  \<open>2^53 + 1\<close> the last digit printed is 2, not 3), from \<open>10^19\<close> on it is in exponent
  notation (\<^verbatim>\<open>1e+16\<close>), and the division raises \<^verbatim>\<open>OverflowError\<close> when the quotient is too
  large for a \<^verbatim>\<open>float\<close>. The arithmetic of floats is not modelled: in this range the result
  is the parameter \<open>float_text\<close>, which stands for what Python gives.
\<close>

definition str_true_div_1000 :: "(int \<Rightarrow> error + string) \<Rightarrow> int \<Rightarrow> error + string" where
  "str_true_div_1000 float_text n =
     (if \<bar>n\<bar> < 10 ^ 15 then
        Inr ((if n < 0 then ''-'' else [])
             @ str_nat (nat \<bar>n\<bar> div 1000) @ ''.'' @ str_frac3 (nat \<bar>n\<bar> mod 1000))
      else float_text n)"

subsection \<open>The state of a front end\<close>

record process =
  stderr_closed :: bool
  stderr :: "bytes list"

record fuzzer =
  binary :: "string option"
  fuzzer_exe :: "string option"
  blackbox :: bool
  output_test_dir :: string
  input_seeds :: "string option"
  push_dir :: string
  pull_dir :: string
  crash_dir :: string
  mem_limit :: int
  max_input_size :: int
  fuzzer_args :: "(string \<times> string option) list"
  dictionary :: "string option"
  exec_timeout :: "int option"
  post_stats :: bool
  proc :: "process option"
  stats :: "string \<rightharpoonup> string"
  info_log :: "string list"

subsection \<open>The command line: \<^verbatim>\<open>LibFuzzer.cmd\<close>\<close>

text \<open>One step of the loop over \<^verbatim>\<open>self.fuzzer_args\<close>: append \<^verbatim>\<open>-key=val\<close>, or \<^verbatim>\<open>-key\<close>
  when the value is \<^verbatim>\<open>None\<close>.\<close>

fun append_fuzzer_arg :: "string list \<Rightarrow> string \<times> string option \<Rightarrow> string list" where
  "append_fuzzer_arg cmd_list (key, Some val) = cmd_list @ [''-'' @ key @ ''='' @ val]"
| "append_fuzzer_arg cmd_list (key, None) = cmd_list @ [''-'' @ key]"

text \<open>
  \<^verbatim>\<open>cmd\<close>: the list \<^verbatim>\<open>cmd_list\<close> after each statement of the property. The only
  exception the property can raise is the one of formatting the timeout, which ends it; the
  parameter \<open>float_text\<close> is the one of \<open>str_true_div_1000\<close>.
\<close>

definition cmd :: "(int \<Rightarrow> error + string) \<Rightarrow> fuzzer \<Rightarrow> error + string list" where
  "cmd float_text self =
     (let cmd_list = [];
          cmd_list = cmd_list @
            [''-rss_limit_mb='' @ str_int (mem_limit self),
             ''-max_len='' @ str_int (max_input_size self),
             ''-artifact_prefix='' @ (crash_dir self @ ''/''),
             ''-workers='' @ str_int 1,
             ''-reload=1'',
             ''-runs=-1''];
          cmd_list = foldl append_fuzzer_arg cmd_list (fuzzer_args self);
          cmd_list = (case dictionary self of
                        Some d \<Rightarrow> if d \<noteq> [] then cmd_list @ [''-dict='' @ d] else cmd_list
                      | None \<Rightarrow> cmd_list)
      in case (case exec_timeout self of
                 Some t \<Rightarrow>
                   if t \<noteq> 0 then
                     (case str_true_div_1000 float_text t of
                        Inl e \<Rightarrow> Inl e
                      | Inr seconds \<Rightarrow> Inr (cmd_list @ [''-timeout='' @ seconds]))
                   else Inr cmd_list
               | None \<Rightarrow> Inr cmd_list) of
           Inl e \<Rightarrow> Inl e
         | Inr cmd_list \<Rightarrow>
             (let cmd_list = (if post_stats self
                              then cmd_list @ [''-print_final_stats='' @ str_int 1]
                              else cmd_list);
                  cmd_list = cmd_list @ [push_dir self];
                  cmd_list = (case input_seeds self of
                                Some d \<Rightarrow> if d \<noteq> [] then cmd_list @ [d] else cmd_list
                              | None \<Rightarrow> cmd_list)
              in Inr cmd_list))"

subsection \<open>Operations on \<^verbatim>\<open>bytes\<close>\<close>

text \<open>\<^verbatim>\<open>s.startswith(p)\<close>.\<close>

definition startswith :: "bytes \<Rightarrow> bytes \<Rightarrow> bool" where
  "startswith s p = (take (length p) s = p)"

text \<open>
  The first occurrence of the separator \<open>sep\<close> in \<open>s\<close>: the text before it and the text
  after it, or \<open>None\<close> when \<open>sep\<close> does not occur. The separator is never empty in
  this program.
\<close>

fun bytes_partition :: "bytes \<Rightarrow> bytes \<Rightarrow> (bytes \<times> bytes) option" where
  "bytes_partition sep [] = None"
| "bytes_partition sep (c # cs) =
     (if startswith (c # cs) sep then Some ([], drop (length sep) (c # cs))
      else case bytes_partition sep cs of
             None \<Rightarrow> None
           | Some (a, b) \<Rightarrow> Some (c # a, b))"

text \<open>\<^verbatim>\<open>s.split(sep, 1)\<close>: one element when \<open>sep\<close> does not occur, two otherwise.\<close>

definition split_max1 :: "bytes \<Rightarrow> bytes \<Rightarrow> bytes list" where
  "split_max1 sep s = (case bytes_partition sep s of None \<Rightarrow> [s] | Some (a, b) \<Rightarrow> [a, b])"

text \<open>\<^verbatim>\<open>sep in s\<close>.\<close>

definition contains :: "bytes \<Rightarrow> bytes \<Rightarrow> bool" where
  "contains sep s = (bytes_partition sep s \<noteq> None)"

text \<open>\<^verbatim>\<open>xs[i]\<close> for \<open>i \<ge> 0\<close>: raises \<^verbatim>\<open>IndexError\<close> out of range.\<close>

definition py_index :: "'a list \<Rightarrow> nat \<Rightarrow> error + 'a" where
  "py_index xs i = (if i < length xs then Inr (xs ! i) else Inl IndexError)"

text \<open>The ASCII whitespace of \<^verbatim>\<open>bytes.strip()\<close> and \<^verbatim>\<open>bytes.split()\<close>:
  space, tab, line feed, carriage return, vertical tab and form feed.\<close>

definition is_space :: "char \<Rightarrow> bool" where
  "is_space c = (c \<in> set [CHR '' '', CHR 0x09, CHR 0x0A, CHR 0x0D, CHR 0x0B, CHR 0x0C])"

text \<open>\<^verbatim>\<open>s.strip()\<close>.\<close>

definition strip :: "bytes \<Rightarrow> bytes" where
  "strip s = rev (dropWhile is_space (rev (dropWhile is_space s)))"

text \<open>\<^verbatim>\<open>s.strip(cs)\<close>: the characters of \<open>cs\<close> removed at both ends.\<close>

definition strip_chars :: "bytes \<Rightarrow> bytes \<Rightarrow> bytes" where
  "strip_chars cs s =
     rev (dropWhile (\<lambda>c. c \<in> set cs) (rev (dropWhile (\<lambda>c. c \<in> set cs) s)))"

text \<open>\<^verbatim>\<open>s.split()\<close>: the maximal runs of non-whitespace characters; \<open>cur\<close> is the run
  being read.\<close>

fun split_ws_from :: "bytes \<Rightarrow> bytes \<Rightarrow> bytes list" where
  "split_ws_from cur [] = (if cur = [] then [] else [cur])"
| "split_ws_from cur (c # cs) =
     (if is_space c then (if cur = [] then [] else [cur]) @ split_ws_from [] cs
      else split_ws_from (cur @ [c]) cs)"

definition split_ws :: "bytes \<Rightarrow> bytes list" where
  "split_ws s = split_ws_from [] s"

text \<open>
  Well-formed UTF-8 (the byte sequences of the Unicode standard: no overlong forms, no
  surrogates, nothing above U+10FFFF), on the byte values.
\<close>

definition is_cont :: "nat \<Rightarrow> bool" where
  "is_cont b = (0x80 \<le> b \<and> b \<le> 0xBF)"

fun utf8_valid :: "nat list \<Rightarrow> bool" where
  "utf8_valid [] = True"
| "utf8_valid (b0 # bs) =
     (if b0 < 0x80 then utf8_valid bs
      else if 0xC2 \<le> b0 \<and> b0 \<le> 0xDF then
        (case bs of b1 # r \<Rightarrow> is_cont b1 \<and> utf8_valid r | _ \<Rightarrow> False)
      else if 0xE0 \<le> b0 \<and> b0 \<le> 0xEF then
        (case bs of
           b1 # b2 # r \<Rightarrow>
             (if b0 = 0xE0 then 0xA0 \<le> b1 \<and> b1 \<le> 0xBF
              else if b0 = 0xED then 0x80 \<le> b1 \<and> b1 \<le> 0x9F
              else is_cont b1)
             \<and> is_cont b2 \<and> utf8_valid r
         | _ \<Rightarrow> False)
      else if 0xF0 \<le> b0 \<and> b0 \<le> 0xF4 then
        (case bs of
           b1 # b2 # b3 # r \<Rightarrow>
             (if b0 = 0xF0 then 0x90 \<le> b1 \<and> b1 \<le> 0xBF
              else if b0 = 0xF4 then 0x80 \<le> b1 \<and> b1 \<le> 0x8F
              else is_cont b1)
             \<and> is_cont b2 \<and> is_cont b3 \<and> utf8_valid r
         | _ \<Rightarrow> False)
      else False)"

text \<open>\<^verbatim>\<open>s.decode()\<close>: strict UTF-8. The resulting \<^verbatim>\<open>str\<close> is represented by the same
  bytes; ill-formed input raises \<^verbatim>\<open>UnicodeDecodeError\<close>.\<close>

definition decode :: "bytes \<Rightarrow> error + string" where
  "decode s = (if utf8_valid (map of_char s) then Inr s else Inl UnicodeDecodeError)"

subsection \<open>Reading the diagnostic stream: \<^verbatim>\<open>LibFuzzer.populate_stats\<close>\<close>

text \<open>
  The standard error of the subprocess is the list of lines it still holds (each line with
  its line terminator), followed by end of file; a read that would wait for further output
  of a live subprocess is outside the model. \<^verbatim>\<open>readlines(hint)\<close> takes lines off the
  front until their total size exceeds \<open>hint\<close> or the stream is exhausted; it returns the
  lines taken and leaves the rest in the stream.
\<close>

fun readlines_from :: "nat \<Rightarrow> nat \<Rightarrow> bytes list \<Rightarrow> bytes list \<times> bytes list" where
  "readlines_from hint n [] = ([], [])"
| "readlines_from hint n (l # ls) =
     (if n + length l > hint then ([l], ls)
      else case readlines_from hint (n + length l) ls of (batch, rest) \<Rightarrow> (l # batch, rest))"

definition readlines :: "nat \<Rightarrow> bytes list \<Rightarrow> bytes list \<times> bytes list" where
  "readlines hint stream = readlines_from hint 0 stream"

text \<open>\<^verbatim>\<open>line.split(b":", 1)[1].strip()\<close> (source lines 144 and 150): what follows the first
  colon of the line, without the surrounding whitespace; \<^verbatim>\<open>IndexError\<close> when the line has
  no colon.\<close>

definition payload_of :: "bytes \<Rightarrow> error + bytes" where
  "payload_of line =
     (case py_index (split_max1 '':'' line) 1 of
        Inl e \<Rightarrow> Inl e
      | Inr rest \<Rightarrow> Inr (strip rest))"

text \<open>
  One iteration of the inner loop (source lines 150 to 162) on a line of the batch. The
  result is the statistics and the flag \<^verbatim>\<open>done_reading\<close>, which is set where the loop
  breaks, or the exception raised.
\<close>

definition inner_body ::
  "(string \<rightharpoonup> string) \<Rightarrow> bytes \<Rightarrow> error + (string \<rightharpoonup> string) \<times> bool"
where
  "inner_body st line0 =
     (case payload_of line0 of
        Inl e \<Rightarrow> Inl e
      | Inr line \<Rightarrow>
          if line = [] \<or> line = [CHR 0x0A] then Inr (st, True)
          else if contains '': '' line then
            (case bytes_partition '': '' line of
               None \<Rightarrow> Inr (st, False)
             | Some (key, value) \<Rightarrow>
                 if key = ''exec/s'' then
                   (case decode value of
                      Inl e \<Rightarrow> Inl e
                    | Inr v \<Rightarrow> Inr (st(''execs_per_sec'' \<mapsto> v), False))
                 else if key = ''units'' then
                   (case decode value of
                      Inl e \<Rightarrow> Inl e
                    | Inr v \<Rightarrow> Inr (st(''paths_total'' \<mapsto> v), False))
                 else if key = ''cov'' then
                   (case decode value of
                      Inl e \<Rightarrow> Inl e
                    | Inr v \<Rightarrow> Inr (st(''bitmap_cvg'' \<mapsto> v), False))
                 else Inr (st, False))
          else Inr (st, False))"

text \<open>The inner loop (source line 149) over one batch of lines: it ends at the end of
  the batch, at the \<^verbatim>\<open>break\<close>, or at an exception.\<close>

fun inner_loop :: "(string \<rightharpoonup> string) \<Rightarrow> bytes list \<Rightarrow> error + (string \<rightharpoonup> string) \<times> bool" where
  "inner_loop st [] = Inr (st, False)"
| "inner_loop st (line # lines) =
     (case inner_body st line of
        Inl e \<Rightarrow> Inl e
      | Inr (st', done_reading) \<Rightarrow>
          if done_reading then Inr (st', True) else inner_loop st' lines)"

text \<open>
  One iteration of the outer loop (source lines 143 to 162) on a line of the batch read
  first, once \<^verbatim>\<open>done_reading\<close> has been found false. The state is the statistics and what
  is left in the stream: a block-start line makes the inner loop read a further batch from
  the stream.
\<close>

definition outer_body ::
  "(string \<rightharpoonup> string) \<times> bytes list \<Rightarrow> bytes \<Rightarrow>
   error + ((string \<rightharpoonup> string) \<times> bytes list) \<times> bool"
where
  "outer_body s line0 =
     (case s of (st, stream) \<Rightarrow>
        if startswith line0 ''EXTERNAL: '' then
          (case payload_of line0 of
             Inl e \<Rightarrow> Inl e
           | Inr line \<Rightarrow>
               if startswith line ''#'' then
                 (case py_index (split_ws line) 0 of
                    Inl e \<Rightarrow> Inl e
                  | Inr tok \<Rightarrow>
                      (case decode (strip_chars ''#'' tok) of
                         Inl e \<Rightarrow> Inl e
                       | Inr v \<Rightarrow>
                           (case readlines 100 stream of
                              (batch, stream') \<Rightarrow>
                                (case inner_loop (st(''execs_done'' \<mapsto> v)) batch of
                                   Inl e \<Rightarrow> Inl e
                                 | Inr (st', done_reading) \<Rightarrow>
                                     Inr ((st', stream'), done_reading)))))
               else Inr ((st, stream), False))
        else Inr ((st, stream), False))"

text \<open>The outer loop (source lines 139 to 141): it ends at the end of the batch, or at the
  first line met with \<^verbatim>\<open>done_reading\<close> set, or at an exception. The result is the state
  and the value of \<^verbatim>\<open>done_reading\<close> when the loop ends.\<close>

fun outer_loop ::
  "bool \<Rightarrow> (string \<rightharpoonup> string) \<times> bytes list \<Rightarrow> bytes list \<Rightarrow>
   error + ((string \<rightharpoonup> string) \<times> bytes list) \<times> bool"
where
  "outer_loop done_reading s [] = Inr (s, done_reading)"
| "outer_loop done_reading s (line # lines) =
     (if done_reading then Inr (s, True)
      else case outer_body s line of
             Inl e \<Rightarrow> Inl e
           | Inr (s', done_reading') \<Rightarrow> outer_loop done_reading' s' lines)"

text \<open>
  \<^verbatim>\<open>populate_stats\<close>. The method of the base class, \<^verbatim>\<open>super().populate_stats()\<close>, belongs
  to the surrounding framework and is the parameter \<open>super_populate_stats\<close>.
\<close>

definition populate_stats :: "(fuzzer \<Rightarrow> error + fuzzer) \<Rightarrow> fuzzer \<Rightarrow> error + fuzzer" where
  "populate_stats super_populate_stats self0 =
     (case super_populate_stats self0 of
        Inl e \<Rightarrow> Inl e
      | Inr self \<Rightarrow>
          (case proc self of
             None \<Rightarrow> Inr self
           | Some p \<Rightarrow>
               if stderr_closed p then Inr self
               else
                 (case readlines 100 (stderr p) of
                    (batch, stream) \<Rightarrow>
                      (case outer_loop False (stats self, stream) batch of
                         Inl e \<Rightarrow> Inl e
                       | Inr ((st, stream'), done_reading) \<Rightarrow>
                           Inr (self\<lparr>stats := st, proc := Some (p\<lparr>stderr := stream'\<rparr>)\<rparr>)))))"

subsection \<open>The session directories: \<^verbatim>\<open>LibFuzzer.pre_exec\<close>\<close>

text \<open>
  The file system is the set of the paths that exist. Paths are compared as texts, the way
  \<^verbatim>\<open>os.path.join\<close> builds them.
\<close>

type_synonym filesystem = "string set"

text \<open>\<^verbatim>\<open>os.path.join(a, b)\<close> on a POSIX system.\<close>

definition path_join :: "string \<Rightarrow> string \<Rightarrow> string" where
  "path_join a b =
     (if startswith b ''/'' then b
      else if a = [] \<or> last a = CHR ''/'' then a @ b
      else a @ ''/'' @ b)"

text \<open>\<open>p\<close> is an entry of the directory \<open>d\<close>: \<open>d\<close>, a separator, and one more name.\<close>

definition is_child :: "string \<Rightarrow> string \<Rightarrow> bool" where
  "is_child d p =
     (let pre = (if d = [] \<or> last d = CHR ''/'' then d else d @ ''/'');
          name = drop (length pre) p
      in startswith p pre \<and> name \<noteq> [] \<and> CHR ''/'' \<notin> set name)"

text \<open>\<^verbatim>\<open>os.listdir(d)\<close>: the paths of the entries of \<open>d\<close>; \<^verbatim>\<open>FileNotFoundError\<close> when \<open>d\<close>
  does not exist.\<close>

definition listdir :: "filesystem \<Rightarrow> string \<Rightarrow> error + string set" where
  "listdir fs d = (if d \<in> fs then Inr {p \<in> fs. is_child d p} else Inl (FileNotFoundError d))"

text \<open>The path itself and the directories above it: every prefix of the path that ends
  where a separator follows; \<open>acc\<close> is the part already read.\<close>

fun path_prefixes :: "string \<Rightarrow> string \<Rightarrow> string list" where
  "path_prefixes acc [] = (if acc = [] then [] else [acc])"
| "path_prefixes acc (c # cs) =
     (if c = CHR ''/'' \<and> acc \<noteq> [] \<and> last acc \<noteq> CHR ''/'' then [acc] else [])
     @ path_prefixes (acc @ [c]) cs"

text \<open>
  Modelled from the spec: the method \<^verbatim>\<open>check_required_directories\<close> of the base class
  \<^verbatim>\<open>FuzzerFrontend\<close> (module \<^verbatim>\<open>deepstate.core\<close>). The specification, section 4.1 step 2:
  verify that the directories exist; fail with a configuration error, "missing required
  directory", if one is absent; create nothing.
\<close>

definition check_required_directories :: "filesystem \<Rightarrow> string list \<Rightarrow> error + unit" where
  "check_required_directories fs required_dirs =
     (if list_all (\<lambda>d. d \<in> fs) required_dirs then Inr ()
      else Inl (FuzzFrontendError ''missing required directory''))"

text \<open>
  Modelled from the spec: the method \<^verbatim>\<open>setup_new_session\<close> of the base class
  \<^verbatim>\<open>FuzzerFrontend\<close> (module \<^verbatim>\<open>deepstate.core\<close>). The specification, section 4.1 step 3:
  create the directories, and any missing parent directories, if absent.
\<close>

definition setup_new_session :: "filesystem \<Rightarrow> string list \<Rightarrow> filesystem" where
  "setup_new_session fs dirs_to_create =
     foldl (\<lambda>fs d. fs \<union> set (path_prefixes [] d)) fs dirs_to_create"

text \<open>Source lines 57 and 58, and again 65 and 66: the harness executable is the fuzzer.\<close>

definition set_binary :: "string \<Rightarrow> fuzzer \<Rightarrow> fuzzer" where
  "set_binary path self = self\<lparr>binary := Some path, fuzzer_exe := Some path\<rparr>"

text \<open>
  \<^verbatim>\<open>pre_exec\<close>, on the object and the file system. \<^verbatim>\<open>os.path.abspath\<close> depends on the working
  directory and is the parameter \<open>abspath\<close>; \<^verbatim>\<open>super().pre_exec()\<close>, the method of the base
  class, belongs to the surrounding framework and is the parameter \<open>super_pre_exec\<close>. The
  informational log line of the resume branch is appended to \<open>info_log\<close>.
\<close>

definition pre_exec ::
  "(string \<Rightarrow> string) \<Rightarrow> (fuzzer \<times> filesystem \<Rightarrow> error + fuzzer \<times> filesystem) \<Rightarrow>
   fuzzer \<times> filesystem \<Rightarrow> error + fuzzer \<times> filesystem"
where
  "pre_exec abspath super_pre_exec w =
     (case w of (self0, fs0) \<Rightarrow>
        (case super_pre_exec
                (case binary self0 of
                   Some b \<Rightarrow> if b \<noteq> [] then set_binary (abspath b) self0 else self0
                 | None \<Rightarrow> self0,
                 fs0) of
           Inl e \<Rightarrow> Inl e
         | Inr (self1, fs) \<Rightarrow>
             (case binary self1 of
                None \<Rightarrow> Inl (FuzzFrontendError ''Binary not set.'')
              | Some b \<Rightarrow>
                  if b = [] then Inl (FuzzFrontendError ''Binary not set.'')
                  else if blackbox self1 then
                    Inl (FuzzFrontendError ''Blackbox fuzzing is not supported by libFuzzer.'')
                  else
                    (let sync_dir = path_join (output_test_dir self1) ''sync_dir'';
                         main_dir = path_join (output_test_dir self1) ''the_fuzzer'';
                         self = (set_binary (abspath b) self1)
                                  \<lparr>push_dir := path_join sync_dir ''queue'',
                                   pull_dir := path_join sync_dir ''queue'',
                                   crash_dir := path_join main_dir ''crashes''\<rparr>
                     in case listdir fs (output_test_dir self) of
                          Inl e \<Rightarrow> Inl e
                        | Inr entries \<Rightarrow>
                            if entries \<noteq> {} then
                              (case check_required_directories fs
                                      [push_dir self, pull_dir self, crash_dir self] of
                                 Inl e \<Rightarrow> Inl e
                               | Inr _ \<Rightarrow>
                                   Inr (self\<lparr>input_seeds := None,
                                             info_log := info_log self @
                                               [''Resuming fuzzing using seeds from '' @ push_dir self
                                                @ '' (skipping --input_seeds option).'']\<rparr>,
                                        fs))
                            else Inr (self, setup_new_session fs [pull_dir self, crash_dir self])))))"

subsection \<open>Sample objects\<close>

text \<open>A configured front end with the defaults of the command line, before \<^verbatim>\<open>pre_exec\<close>
  has run, and the same once the session directories are known.\<close>

definition sample_config :: fuzzer where
  "sample_config =
     \<lparr>binary = Some ''/work/harness'', fuzzer_exe = None, blackbox = False,
      output_test_dir = ''/work/out'', input_seeds = None,
      push_dir = [], pull_dir = [], crash_dir = [],
      mem_limit = 50, max_input_size = 8192, fuzzer_args = [],
      dictionary = None, exec_timeout = None, post_stats = False,
      proc = None, stats = Map.empty, info_log = []\<rparr>"

definition sample_fuzzer :: fuzzer where
  "sample_fuzzer =
     sample_config
       \<lparr>fuzzer_exe := Some ''/work/harness'',
        push_dir := ''/work/out/sync_dir/queue'',
        pull_dir := ''/work/out/sync_dir/queue'',
        crash_dir := ''/work/out/the_fuzzer/crashes''\<rparr>"

text \<open>A value for the parameter \<open>float_text\<close> of \<^verbatim>\<open>cmd\<close> where the timeout is below
  \<open>10^15\<close> milliseconds, so that the parameter is never consulted.\<close>

definition no_float_text :: "int \<Rightarrow> error + string" where
  "no_float_text n = Inl OverflowError"

text \<open>A running front end whose subprocess still holds the given lines on its standard
  error, with an empty statistics snapshot.\<close>

definition running :: "bytes list \<Rightarrow> fuzzer" where
  "running lines = sample_fuzzer\<lparr>proc := Some \<lparr>stderr_closed = False, stderr = lines\<rparr>\<rparr>"

text \<open>
  What a caller can observe after a call of \<^verbatim>\<open>populate_stats\<close>: the exception, or the four
  statistics (\<^verbatim>\<open>execs_done\<close>, \<^verbatim>\<open>execs_per_sec\<close>, \<^verbatim>\<open>paths_total\<close>, \<^verbatim>\<open>bitmap_cvg\<close>) and the
  lines left in the stream.
\<close>

definition outcome :: "error + fuzzer \<Rightarrow> error + string option list \<times> bytes list option" where
  "outcome r =
     (case r of
        Inl e \<Rightarrow> Inl e
      | Inr self \<Rightarrow>
          Inr (map (stats self) [''execs_done'', ''execs_per_sec'', ''paths_total'', ''bitmap_cvg''],
               map_option stderr (proc self)))"

text \<open>The next call of \<^verbatim>\<open>populate_stats\<close> on the same object, after the subprocess has
  written the lines \<open>arrived\<close>.\<close>

definition next_poll :: "error + fuzzer \<Rightarrow> bytes list \<Rightarrow> error + fuzzer" where
  "next_poll r arrived =
     (case r of
        Inl e \<Rightarrow> Inl e
      | Inr self \<Rightarrow>
          populate_stats Inr
            (self\<lparr>proc := map_option (\<lambda>p. p\<lparr>stderr := stderr p @ arrived\<rparr>) (proc self)\<rparr>))"

text \<open>A block-start line of 126 bytes, longer than the size hint of \<^verbatim>\<open>readlines(100)\<close>, so
  that it is a batch of its own.\<close>

definition long_start :: bytes where
  "long_start =
     ''EXTERNAL: #42 INITED cov: 12 ft: 13 corp: 1/1b exec/s: 0 rss: 24Mb ''
     @ replicate 58 CHR ''a'' @ ''\<newline>''"

text \<open>A configuration that sets every option \<^verbatim>\<open>cmd\<close> reads.\<close>

definition full_fuzzer :: fuzzer where
  "full_fuzzer =
     sample_fuzzer
       \<lparr>fuzzer_args := [(''use_value_profile'', Some ''1''), (''help'', None)],
        dictionary := Some ''/work/dict.txt'', exec_timeout := Some 2000, post_stats := True,
        input_seeds := Some ''/work/seeds''\<rparr>"

text \<open>A configuration with a seed corpus, and three states of the file system under the
  output directory \<^verbatim>\<open>/work/out\<close>: empty, holding a complete earlier session, and holding an
  earlier session whose crash directory is missing. \<open>resumed_fuzzer\<close> is the front end
  after \<^verbatim>\<open>pre_exec\<close> has resumed the complete session.\<close>

definition seeded_config :: fuzzer where
  "seeded_config = sample_config\<lparr>input_seeds := Some ''/work/seeds''\<rparr>"

definition fresh_files :: filesystem where
  "fresh_files = {''/work'', ''/work/out''}"

definition session_files :: filesystem where
  "session_files =
     {''/work'', ''/work/out'', ''/work/out/sync_dir'', ''/work/out/sync_dir/queue'',
      ''/work/out/the_fuzzer'', ''/work/out/the_fuzzer/crashes''}"

definition broken_files :: filesystem where
  "broken_files =
     {''/work'', ''/work/out'', ''/work/out/sync_dir'', ''/work/out/sync_dir/queue''}"

definition resumed_fuzzer :: fuzzer where
  "resumed_fuzzer =
     sample_fuzzer
       \<lparr>info_log := [''Resuming fuzzing using seeds from /work/out/sync_dir/queue''
                     @ '' (skipping --input_seeds option).'']\<rparr>"

text \<open>
  A stream of seven lines. \<^verbatim>\<open>readlines(100)\<close> returns the first four as one batch: a line
  without the marker, a block-start line, a second block-start line and a long line.
  The next batch is the other three: a rate line, a block-end line and a third block-start
  line.
\<close>

definition filler_line :: bytes where
  "filler_line = ''EXTERNAL: '' @ replicate 90 CHR ''a'' @ ''\<newline>''"

definition wide_cov_line :: bytes where
  "wide_cov_line = ''EXTERNAL: cov: 10'' @ replicate 90 CHR '' '' @ ''\<newline>''"

definition poll_stream :: "bytes list" where
  "poll_stream =
     [''INFO: libFuzzer starting\<newline>'',
      ''EXTERNAL: #42 NEW\<newline>'',
      ''EXTERNAL: #43 NEW\<newline>'',
      filler_line,
      ''EXTERNAL: exec/s: 1000\<newline>'',
      ''EXTERNAL: \<newline>'',
      ''EXTERNAL: #77 NEW\<newline>'']"

text \<open>
  A stream of nine lines that holds two blocks. \<^verbatim>\<open>readlines(100)\<close> returns the first five
  as one batch: a line without the marker, three block-start lines (counters 42, 43 and 44)
  and a long line. The batch read for the first block start is one long coverage line, with
  no block end. The batch read for the second block start is the last three lines: a rate
  line, a block-end line and a block-start line (counter 77).
\<close>

definition two_block_stream :: "bytes list" where
  "two_block_stream =
     [''INFO: libFuzzer starting\<newline>'',
      ''EXTERNAL: #42 NEW\<newline>'',
      ''EXTERNAL: #43 NEW\<newline>'',
      ''EXTERNAL: #44 NEW\<newline>'',
      filler_line,
      wide_cov_line,
      ''EXTERNAL: exec/s: 1000\<newline>'',
      ''EXTERNAL: \<newline>'',
      ''EXTERNAL: #77 NEW\<newline>'']"


section \<open>Properties of the command line\<close>

subsection \<open>Auxiliary facts\<close>

lemma foldl_append_fuzzer_arg:
  "foldl append_fuzzer_arg acc args =
     acc @ map (\<lambda>(key, val). case val of Some v \<Rightarrow> ''-'' @ key @ ''='' @ v | None \<Rightarrow> ''-'' @ key) args"
proof (induction args arbitrary: acc)
  case Nil
  show ?case by simp
next
  case (Cons a args)
  obtain key val where a: "a = (key, val)" by (cases a)
  show ?case using Cons.IH by (cases val) (simp_all add: a)
qed

lemma str_int_1: "str_int 1 = ''1''"
  by (simp add: str_int_def str_nat.simps digit_char_def)

lemma str_nat_1: "str_nat (Suc 0) = ''1''"
  by (simp add: str_nat.simps digit_char_def)

lemma str_int_50: "str_int 50 = ''50''"
  by (simp add: str_int_def str_nat.simps digit_char_def)

lemma str_int_8192: "str_int 8192 = ''8192''"
  by (simp add: str_int_def str_nat.simps digit_char_def)

lemma str_frac3_500: "str_frac3 500 = ''5''"
  by (simp add: str_frac3_def digit_char_def)

lemma str_true_div_1000_1500: "str_true_div_1000 float_text 1500 = Inr ''1.5''"
  by (simp add: str_true_div_1000_def str_nat.simps digit_char_def str_frac3_def)

lemma str_true_div_1000_2000: "str_true_div_1000 float_text 2000 = Inr ''2.0''"
  by (simp add: str_true_div_1000_def str_nat.simps digit_char_def str_frac3_def)

text \<open>The successive appends of \<^verbatim>\<open>cmd\<close> as one concatenation, unless formatting the
  timeout raises.\<close>

lemma cmd_append_form:
  "cmd float_text self =
     (case (if truthy_int (exec_timeout self)
            then str_true_div_1000 float_text (the (exec_timeout self)) else Inr []) of
        Inl e \<Rightarrow> Inl e
      | Inr seconds \<Rightarrow>
          Inr ([''-rss_limit_mb='' @ str_int (mem_limit self),
                ''-max_len='' @ str_int (max_input_size self),
                ''-artifact_prefix='' @ crash_dir self @ ''/'',
                ''-workers=1'', ''-reload=1'', ''-runs=-1'']
               @ map (\<lambda>(key, val). case val of Some v \<Rightarrow> ''-'' @ key @ ''='' @ v | None \<Rightarrow> ''-'' @ key)
                   (fuzzer_args self)
               @ (if truthy_str (dictionary self) then [''-dict='' @ the (dictionary self)] else [])
               @ (if truthy_int (exec_timeout self) then [''-timeout='' @ seconds] else [])
               @ (if post_stats self then [''-print_final_stats=1''] else [])
               @ [push_dir self]
               @ (if truthy_str (input_seeds self) then [the (input_seeds self)] else [])))"
proof (cases "truthy_int (exec_timeout self)")
  case False
  then show ?thesis
    by (cases "dictionary self"; cases "exec_timeout self"; cases "input_seeds self")
       (simp_all add: cmd_def Let_def foldl_append_fuzzer_arg str_int_1)
next
  case True
  then obtain t where t: "exec_timeout self = Some t" "t \<noteq> 0"
    by (cases "exec_timeout self") simp_all
  show ?thesis
    by (cases "dictionary self"; cases "input_seeds self";
        cases "str_true_div_1000 float_text t")
       (simp_all add: cmd_def Let_def foldl_append_fuzzer_arg str_int_1 t)
qed

lemma sample_fuzzer_simps:
  "mem_limit sample_fuzzer = 50" "max_input_size sample_fuzzer = 8192"
  "crash_dir sample_fuzzer = ''/work/out/the_fuzzer/crashes''"
  "push_dir sample_fuzzer = ''/work/out/sync_dir/queue''"
  "fuzzer_args sample_fuzzer = []" "dictionary sample_fuzzer = None"
  "exec_timeout sample_fuzzer = None" "post_stats sample_fuzzer = False"
  "input_seeds sample_fuzzer = None"
  by (simp_all add: sample_fuzzer_def sample_config_def)

lemma digit_char_zero: "d < 10 \<Longrightarrow> (digit_char d = CHR ''0'') = (d = 0)"
  by (auto simp: digit_char_def numeral_eq_Suc less_Suc_eq)

lemma thousandths_zero:
  assumes "(r::nat) < 1000"
  shows "(r div 100 mod 10 = 0 \<and> r div 10 mod 10 = 0 \<and> r mod 10 = 0) = (r = 0)"
proof
  assume z: "r div 100 mod 10 = 0 \<and> r div 10 mod 10 = 0 \<and> r mod 10 = 0"
  have "r div 100 < 10" using assms by simp
  then have "r div 100 = 0" using z by simp
  then have "r < 100" by simp
  then have "r div 10 < 10" by simp
  then have "r div 10 = 0" using z by simp
  then have "r < 10" by simp
  then show "r = 0" using z by simp
next
  assume "r = 0"
  then show "r div 100 mod 10 = 0 \<and> r div 10 mod 10 = 0 \<and> r mod 10 = 0" by simp
qed

text \<open>The printed fraction is \<^verbatim>\<open>0\<close> only when there are no thousandths.\<close>

lemma str_frac3_whole: "r < 1000 \<Longrightarrow> (str_frac3 r = ''0'') = (r = 0)"
proof -
  assume r: "r < 1000"
  have a: "r div 100 mod 10 < 10" and b: "r div 10 mod 10 < 10" and c: "r mod 10 < 10" by simp_all
  show ?thesis
    unfolding str_frac3_def Let_def thousandths_zero [OF r, symmetric]
    by (simp add: digit_char_zero [OF a] digit_char_zero [OF b] digit_char_zero [OF c])
qed

lemma nat_mod_1000: "0 < t \<Longrightarrow> (nat t mod 1000 = 0) = (t mod 1000 = 0)"
proof -
  assume t: "0 < t"
  have "nat t mod 1000 = nat (t mod 1000)"
    using nat_mod_distrib [of t 1000] t by simp
  moreover have "(t mod 1000 \<le> 0) = (t mod 1000 = 0)"
    using pos_mod_sign [of 1000 t] by linarith
  ultimately show ?thesis by simp
qed

lemma str_true_div_1000_in_range:
  assumes "0 < t" and "t < 10 ^ 15"
  shows "str_true_div_1000 float_text t =
           Inr (str_nat (nat t div 1000) @ ''.'' @ str_frac3 (nat t mod 1000))"
  using assms by (simp add: str_true_div_1000_def)

subsection \<open>The execution timeout\<close>

text \<open>
  Claim C1 says that an execution timeout of 1500 milliseconds gives a timeout flag with
  the value \<^verbatim>\<open>1\<close>, the milliseconds integer-divided by 1000. The code divides with \<^verbatim>\<open>/\<close>,
  which is true division in Python 3: for 1500 the token is \<^verbatim>\<open>-timeout=1.5\<close>, and no token
  \<^verbatim>\<open>-timeout=1\<close> is in the command.
\<close>

theorem cmd_timeout_1500_counterexample:
  "cmd no_float_text (sample_fuzzer\<lparr>exec_timeout := Some 1500\<rparr>) =
     Inr [''-rss_limit_mb=50'', ''-max_len=8192'',
          ''-artifact_prefix=/work/out/the_fuzzer/crashes/'',
          ''-workers=1'', ''-reload=1'', ''-runs=-1'', ''-timeout=1.5'',
          ''/work/out/sync_dir/queue'']"
  by (simp add: cmd_append_form sample_fuzzer_simps str_int_50 str_int_8192 str_true_div_1000_1500)

text \<open>
  Claim C1, amended: for every configuration with an execution timeout \<open>t\<close> of more than 0
  and less than \<open>10^15\<close> milliseconds, the command is built and contains a timeout flag
  whose value is the exact quotient \<open>t / 1000\<close> written as a decimal: the whole seconds
  \<open>t div 1000\<close>, a point, and the remaining thousandths without trailing zeros. The value
  is not truncated: its fraction is \<^verbatim>\<open>0\<close> only when \<open>t\<close> is a multiple of 1000. This holds
  whatever Python prints for the timeouts of \<open>10^15\<close> milliseconds and more.
\<close>

theorem cmd_timeout_true_division:
  assumes "exec_timeout self = Some t" and "0 < t" and "t < 10 ^ 15"
  shows "(\<exists>toks. cmd float_text self = Inr toks
            \<and> ''-timeout='' @ str_nat (nat t div 1000) @ ''.'' @ str_frac3 (nat t mod 1000)
                \<in> set toks)
         \<and> ((str_frac3 (nat t mod 1000) = ''0'') = (t mod 1000 = 0))"
proof -
  have "\<exists>toks. cmd float_text self = Inr toks
            \<and> ''-timeout='' @ str_nat (nat t div 1000) @ ''.'' @ str_frac3 (nat t mod 1000)
                \<in> set toks"
    using assms(1,2) by (simp add: cmd_append_form str_true_div_1000_in_range [OF assms(2,3)])
  moreover have "(str_frac3 (nat t mod 1000) = ''0'') = (t mod 1000 = 0)"
    using nat_mod_1000 [OF assms(2)] by (simp add: str_frac3_whole)
  ultimately show ?thesis by simp
qed

theorem cmd_timeout_true_division_witness:
  "exec_timeout (sample_fuzzer\<lparr>exec_timeout := Some 1500\<rparr>) = Some 1500
   \<and> (0::int) < 1500 \<and> (1500::int) < 10 ^ 15
   \<and> (\<exists>toks. cmd no_float_text (sample_fuzzer\<lparr>exec_timeout := Some 1500\<rparr>) = Inr toks
         \<and> ''-timeout=1.5'' \<in> set toks)
   \<and> str_frac3 500 \<noteq> ''0''"
  using cmd_timeout_true_division
    [of "sample_fuzzer\<lparr>exec_timeout := Some 1500\<rparr>" 1500 no_float_text]
  by (simp add: str_nat_1 str_frac3_500)

subsection \<open>Passthrough keys that name a required flag\<close>




subsection \<open>The order of the tokens\<close>

text \<open>
  Claim C7: for every configuration and session paths the token list consists of four
  contiguous groups. First the required flags in their fixed order: the resource limit, the
  maximal input size, the artifact prefix (the crash directory with a trailing path
  separator), the worker count, always 1, the reload flag and the run count \<^verbatim>\<open>-1\<close>. Then
  the passthrough flags in the order of the caller. Then the optional flags, each present
  only if set: dictionary, timeout, final statistics. Last the positional arguments: the
  push directory, then the seed directory if there is one. The only case without a token
  list is the one where formatting the timeout raises.
\<close>

theorem cmd_token_groups:
  "cmd float_text self =
     (case (if truthy_int (exec_timeout self)
            then str_true_div_1000 float_text (the (exec_timeout self)) else Inr []) of
        Inl e \<Rightarrow> Inl e
      | Inr seconds \<Rightarrow>
          Inr ([''-rss_limit_mb='' @ str_int (mem_limit self),
                ''-max_len='' @ str_int (max_input_size self),
                ''-artifact_prefix='' @ crash_dir self @ ''/'',
                ''-workers=1'',
                ''-reload=1'',
                ''-runs=-1'']
               @ map (\<lambda>(key, val). case val of Some v \<Rightarrow> ''-'' @ key @ ''='' @ v | None \<Rightarrow> ''-'' @ key)
                   (fuzzer_args self)
               @ ((if truthy_str (dictionary self) then [''-dict='' @ the (dictionary self)] else [])
                  @ (if truthy_int (exec_timeout self) then [''-timeout='' @ seconds] else [])
                  @ (if post_stats self then [''-print_final_stats=1''] else []))
               @ ([push_dir self]
                  @ (if truthy_str (input_seeds self) then [the (input_seeds self)] else []))))"
  by (simp only: cmd_append_form append_assoc)

theorem cmd_token_groups_witness:
  "cmd no_float_text full_fuzzer =
     Inr [''-rss_limit_mb=50'', ''-max_len=8192'',
          ''-artifact_prefix=/work/out/the_fuzzer/crashes/'',
          ''-workers=1'', ''-reload=1'', ''-runs=-1'',
          ''-use_value_profile=1'', ''-help'',
          ''-dict=/work/dict.txt'', ''-timeout=2.0'', ''-print_final_stats=1'',
          ''/work/out/sync_dir/queue'', ''/work/seeds'']"
  using cmd_token_groups [of no_float_text full_fuzzer]
  by (simp add: full_fuzzer_def sample_fuzzer_simps str_int_50 str_int_8192 str_true_div_1000_2000)

subsection \<open>Options that are set but false\<close>

text \<open>
  Claim C10: the optional flags are gated on the truth value of the option, not on its
  presence. An execution timeout of 0 milliseconds gives the same command as no timeout, an
  empty dictionary path gives the same command as no dictionary, and with both the
  command is built and its optional group holds neither a timeout flag nor a dictionary
  flag: it is the final statistics flag alone, when that is requested.
\<close>

theorem cmd_falsy_options_as_unset:
  "cmd float_text (self\<lparr>exec_timeout := Some 0\<rparr>) = cmd float_text (self\<lparr>exec_timeout := None\<rparr>)
   \<and> cmd float_text (self\<lparr>dictionary := Some []\<rparr>) = cmd float_text (self\<lparr>dictionary := None\<rparr>)
   \<and> cmd float_text (self\<lparr>exec_timeout := Some 0, dictionary := Some []\<rparr>) =
       Inr ([''-rss_limit_mb='' @ str_int (mem_limit self),
             ''-max_len='' @ str_int (max_input_size self),
             ''-artifact_prefix='' @ crash_dir self @ ''/'',
             ''-workers=1'', ''-reload=1'', ''-runs=-1'']
            @ map (\<lambda>(key, val). case val of Some v \<Rightarrow> ''-'' @ key @ ''='' @ v | None \<Rightarrow> ''-'' @ key)
                (fuzzer_args self)
            @ (if post_stats self then [''-print_final_stats=1''] else [])
            @ [push_dir self]
            @ (if truthy_str (input_seeds self) then [the (input_seeds self)] else []))"
  by (simp add: cmd_append_form cong: sum.case_cong)

theorem cmd_falsy_options_as_unset_witness:
  "cmd no_float_text (sample_fuzzer\<lparr>exec_timeout := Some 0, dictionary := Some []\<rparr>) =
     Inr [''-rss_limit_mb=50'', ''-max_len=8192'',
          ''-artifact_prefix=/work/out/the_fuzzer/crashes/'',
          ''-workers=1'', ''-reload=1'', ''-runs=-1'', ''/work/out/sync_dir/queue'']"
  using cmd_falsy_options_as_unset [of no_float_text sample_fuzzer]
  by (simp add: sample_fuzzer_simps str_int_50 str_int_8192)

section \<open>Properties of the session preparation\<close>

subsection \<open>Auxiliary facts\<close>

lemma path_prefixes_self: "acc @ cs \<noteq> [] \<Longrightarrow> acc @ cs \<in> set (path_prefixes acc cs)"
proof (induction cs arbitrary: acc)
  case Nil
  then show ?case by simp
next
  case (Cons c cs)
  have "(acc @ [c]) @ cs \<in> set (path_prefixes (acc @ [c]) cs)"
    by (rule Cons.IH) simp
  then show ?case by simp
qed

lemma path_join_nonempty: "b \<noteq> [] \<Longrightarrow> path_join a b \<noteq> []"
  by (simp add: path_join_def)

lemma setup_new_session_two:
  "setup_new_session fs [a, b] = fs \<union> set (path_prefixes [] a) \<union> set (path_prefixes [] b)"
  by (simp add: setup_new_session_def)

lemma check_required_directories_three:
  "check_required_directories fs [a, b, c] =
     (if a \<in> fs \<and> b \<in> fs \<and> c \<in> fs then Inr ()
      else Inl (FuzzFrontendError ''missing required directory''))"
  by (simp add: check_required_directories_def)

text \<open>\<^verbatim>\<open>pre_exec\<close> once the base class has run, the binary is set and the mode is not
  blackbox: the case split on the listing of the output directory.\<close>

lemma pre_exec_after_super:
  assumes "super_pre_exec
             (case binary obj of
                Some b \<Rightarrow> if b \<noteq> [] then set_binary (abspath b) obj else obj
              | None \<Rightarrow> obj, files) = Inr (base, fs)"
      and "binary base = Some b" and "b \<noteq> []" and "\<not> blackbox base"
      and "output_test_dir base \<in> fs"
  shows "pre_exec abspath super_pre_exec (obj, files) =
     (let out = output_test_dir base;
          push = path_join (path_join out ''sync_dir'') ''queue'';
          crash = path_join (path_join out ''the_fuzzer'') ''crashes'';
          self = (set_binary (abspath b) base)\<lparr>push_dir := push, pull_dir := push, crash_dir := crash\<rparr>
      in if {p \<in> fs. is_child out p} \<noteq> {} then
           (if push \<in> fs \<and> crash \<in> fs then
              Inr (self\<lparr>input_seeds := None,
                        info_log := info_log base @
                          [''Resuming fuzzing using seeds from '' @ push
                           @ '' (skipping --input_seeds option).'']\<rparr>, fs)
            else Inl (FuzzFrontendError ''missing required directory''))
         else Inr (self, fs \<union> set (path_prefixes [] push) \<union> set (path_prefixes [] crash)))"
  using assms
  by (auto simp: pre_exec_def Let_def listdir_def set_binary_def setup_new_session_two
        check_required_directories_three)


subsection \<open>Fresh start and resume\<close>

text \<open>
  Claim C3: session preparation is a three-way case split on the output directory. Let the
  base class have run without error, the binary be set, the mode not be blackbox and the
  output directory exist. If the output directory has no entries, \<^verbatim>\<open>pre_exec\<close> succeeds, the
  push/queue directory and the crash directory both exist afterwards, nothing that existed
  is lost, and the session is not marked as resumed: the seed path is kept and no resume
  note is logged. If it has entries and both directories exist, \<^verbatim>\<open>pre_exec\<close> succeeds and
  marks the session as resumed (the seed path is dropped and the resume note is logged),
  and the file system is unchanged: nothing is created, deleted or modified. If it has
  entries and one of the two directories is missing, \<^verbatim>\<open>pre_exec\<close> fails with the error
  "missing required directory". The two methods of the base class that create and check
  the directories are modelled from the specification.
\<close>

theorem pre_exec_session_cases:
  assumes "super_pre_exec
             (case binary obj of
                Some b \<Rightarrow> if b \<noteq> [] then set_binary (abspath b) obj else obj
              | None \<Rightarrow> obj, files) = Inr (base, fs)"
      and "binary base = Some b" and "b \<noteq> []" and "\<not> blackbox base"
      and "output_test_dir base \<in> fs"
  shows
    "let out = output_test_dir base;
         push = path_join (path_join out ''sync_dir'') ''queue'';
         crash = path_join (path_join out ''the_fuzzer'') ''crashes'';
         result = pre_exec abspath super_pre_exec (obj, files)
     in ({p \<in> fs. is_child out p} = {} \<longrightarrow>
           (\<exists>self' fs'. result = Inr (self', fs')
              \<and> push_dir self' = push \<and> pull_dir self' = push \<and> crash_dir self' = crash
              \<and> push \<in> fs' \<and> crash \<in> fs' \<and> fs \<subseteq> fs'
              \<and> input_seeds self' = input_seeds base \<and> info_log self' = info_log base))
      \<and> ({p \<in> fs. is_child out p} \<noteq> {} \<and> push \<in> fs \<and> crash \<in> fs \<longrightarrow>
           (\<exists>self'. result = Inr (self', fs)
              \<and> push_dir self' = push \<and> pull_dir self' = push \<and> crash_dir self' = crash
              \<and> input_seeds self' = None
              \<and> info_log self' = info_log base @
                   [''Resuming fuzzing using seeds from '' @ push
                    @ '' (skipping --input_seeds option).'']))
      \<and> ({p \<in> fs. is_child out p} \<noteq> {} \<and> (push \<notin> fs \<or> crash \<notin> fs) \<longrightarrow>
           result = Inl (FuzzFrontendError ''missing required directory''))"
proof -
  define push where "push = path_join (path_join (output_test_dir base) ''sync_dir'') ''queue''"
  define crash where "crash = path_join (path_join (output_test_dir base) ''the_fuzzer'') ''crashes''"
  have "push \<noteq> []" and "crash \<noteq> []"
    by (simp_all add: push_def crash_def path_join_nonempty)
  then have created: "push \<in> set (path_prefixes [] push)" "crash \<in> set (path_prefixes [] crash)"
    using path_prefixes_self [of "[]" push] path_prefixes_self [of "[]" crash] by simp_all
  show ?thesis
    unfolding pre_exec_after_super
        [where super_pre_exec = super_pre_exec and obj = obj and abspath = abspath and files = files, OF assms]
      Let_def push_def [symmetric] crash_def [symmetric]
    using created by (auto simp: set_binary_def)
qed

subsection \<open>The seed corpus on the command line\<close>

lemma cmd_seed_last:
  "cmd float_text self =
     (case cmd float_text (self\<lparr>input_seeds := None\<rparr>) of
        Inl e \<Rightarrow> Inl e
      | Inr toks \<Rightarrow>
          Inr (toks @ (if truthy_str (input_seeds self) then [the (input_seeds self)] else [])))"
  by (simp add: cmd_append_form split: sum.splits)

lemma cmd_no_seed_last:
  "cmd float_text (self\<lparr>input_seeds := None\<rparr>) = Inr toks \<Longrightarrow> last toks = push_dir self"
  by (auto simp: cmd_append_form split: sum.splits if_splits)

text \<open>
  Claim C8: after a successful \<^verbatim>\<open>pre_exec\<close>, the command is the command without any seed
  directory, whose last token is the push/queue directory, followed by the seed directory
  exactly when the session is fresh (the output directory had no entries) and a seed path
  was supplied (a non-empty path); on resume the supplied seed path never reaches the
  command line. Where formatting the timeout raises, there is no command with or without
  seed.
\<close>

theorem seed_on_command_line_iff_fresh:
  assumes pre: "pre_exec abspath super_pre_exec (obj, files) = Inr (self', fs')"
      and sup: "super_pre_exec
             (case binary obj of
                Some b \<Rightarrow> if b \<noteq> [] then set_binary (abspath b) obj else obj
              | None \<Rightarrow> obj, files) = Inr (base, fs)"
  shows "cmd float_text self' =
           (case cmd float_text (self'\<lparr>input_seeds := None\<rparr>) of
              Inl e \<Rightarrow> Inl e
            | Inr toks \<Rightarrow>
                Inr (toks
                     @ (if {p \<in> fs. is_child (output_test_dir base) p} = {}
                           \<and> truthy_str (input_seeds base)
                        then [the (input_seeds base)] else [])))
         \<and> (\<forall>toks. cmd float_text (self'\<lparr>input_seeds := None\<rparr>) = Inr toks
                \<longrightarrow> last toks = push_dir self')"
proof -
  have "\<exists>b. binary base = Some b \<and> b \<noteq> [] \<and> \<not> blackbox base \<and> output_test_dir base \<in> fs"
    using pre by (auto simp: pre_exec_def sup Let_def listdir_def set_binary_def
                       split: option.splits if_splits)
  then obtain b where b: "binary base = Some b" "b \<noteq> []" "\<not> blackbox base"
      "output_test_dir base \<in> fs" by blast
  have seeds: "input_seeds self' =
      (if {p \<in> fs. is_child (output_test_dir base) p} = {} then input_seeds base else None)"
    using pre
    unfolding pre_exec_after_super
        [where super_pre_exec = super_pre_exec and obj = obj and abspath = abspath and files = files, OF sup b]
      Let_def
    by (auto simp: set_binary_def split: if_splits)
  have tail: "(if {p \<in> fs. is_child (output_test_dir base) p} = {} \<and> truthy_str (input_seeds base)
               then [the (input_seeds base)] else [])
              = (if truthy_str (input_seeds self') then [the (input_seeds self')] else [])"
  proof (cases "{p \<in> fs. is_child (output_test_dir base) p} = {}")
    case True
    then have "input_seeds self' = input_seeds base"
      using seeds by (simp only: if_True simp_thms)
    then show ?thesis
      using True by (simp only: simp_thms if_True)
  next
    case False
    then have "input_seeds self' = None"
      using seeds by (simp only: if_False simp_thms)
    then show ?thesis
      using False by (simp only: simp_thms truthy_str.simps if_False)
  qed
  have "cmd float_text self' =
           (case cmd float_text (self'\<lparr>input_seeds := None\<rparr>) of
              Inl e \<Rightarrow> Inl e
            | Inr toks \<Rightarrow>
                Inr (toks
                     @ (if {p \<in> fs. is_child (output_test_dir base) p} = {}
                           \<and> truthy_str (input_seeds base)
                        then [the (input_seeds base)] else [])))"
    unfolding tail by (rule cmd_seed_last)
  moreover have "\<forall>toks. cmd float_text (self'\<lparr>input_seeds := None\<rparr>) = Inr toks
                \<longrightarrow> last toks = push_dir self'"
    using cmd_no_seed_last [of float_text self'] by blast
  ultimately show ?thesis by (rule conjI)
qed


lemma sample_paths:
  "path_join (path_join ''/work/out'' ''sync_dir'') ''queue'' = ''/work/out/sync_dir/queue''"
  "path_join (path_join ''/work/out'' ''the_fuzzer'') ''crashes'' = ''/work/out/the_fuzzer/crashes''"
  by (simp_all add: path_join_def startswith_def)

lemma fresh_listing: "{p \<in> fresh_files. is_child ''/work/out'' p} = {}"
  by (auto simp: fresh_files_def is_child_def startswith_def)

lemma session_listing: "{p \<in> session_files. is_child ''/work/out'' p} \<noteq> {}"
proof -
  have "''/work/out/sync_dir'' \<in> {p \<in> session_files. is_child ''/work/out'' p}"
    by (simp add: session_files_def is_child_def startswith_def)
  then show ?thesis by blast
qed

lemma broken_listing: "{p \<in> broken_files. is_child ''/work/out'' p} \<noteq> {}"
proof -
  have "''/work/out/sync_dir'' \<in> {p \<in> broken_files. is_child ''/work/out'' p}"
    by (simp add: broken_files_def is_child_def startswith_def)
  then show ?thesis by blast
qed

lemma seeded_super:
  "Inr (case binary seeded_config of
          Some b \<Rightarrow> if b \<noteq> [] then set_binary ((\<lambda>p. p) b) seeded_config else seeded_config
        | None \<Rightarrow> seeded_config, files)
     = Inr (set_binary ''/work/harness'' seeded_config, files)"
  by (simp add: seeded_config_def sample_config_def)

lemma seeded_base:
  "binary (set_binary ''/work/harness'' seeded_config) = Some ''/work/harness''"
  "\<not> blackbox (set_binary ''/work/harness'' seeded_config)"
  "output_test_dir (set_binary ''/work/harness'' seeded_config) = ''/work/out''"
  "input_seeds (set_binary ''/work/harness'' seeded_config) = Some ''/work/seeds''"
  "info_log (set_binary ''/work/harness'' seeded_config) = []"
  by (simp_all add: seeded_config_def sample_config_def set_binary_def)

lemma seeded_out:
  "output_test_dir (set_binary ''/work/harness'' seeded_config) \<in> fresh_files"
  "output_test_dir (set_binary ''/work/harness'' seeded_config) \<in> session_files"
  "output_test_dir (set_binary ''/work/harness'' seeded_config) \<in> broken_files"
  by (simp_all add: seeded_base fresh_files_def session_files_def broken_files_def)

lemma harness_nonempty: "''/work/harness'' \<noteq> []"
  by simp

lemma pre_exec_fresh_eval:
  "pre_exec (\<lambda>p. p) Inr (seeded_config, fresh_files) =
     Inr (sample_fuzzer\<lparr>input_seeds := Some ''/work/seeds''\<rparr>,
          fresh_files \<union> set (path_prefixes [] ''/work/out/sync_dir/queue'')
            \<union> set (path_prefixes [] ''/work/out/the_fuzzer/crashes''))"
  unfolding pre_exec_after_super [where super_pre_exec = Inr and abspath = "\<lambda>p. p"
        and obj = seeded_config and files = fresh_files,
        OF seeded_super seeded_base(1) harness_nonempty seeded_base(2) seeded_out(1)]
  by (simp add: Let_def sample_paths fresh_listing [simplified]
        set_binary_def seeded_config_def sample_fuzzer_def sample_config_def)

lemma session_dirs:
  "''/work/out/sync_dir/queue'' \<in> session_files"
  "''/work/out/the_fuzzer/crashes'' \<in> session_files"
  by (simp_all add: session_files_def)

lemma pre_exec_resume_eval:
  "pre_exec (\<lambda>p. p) Inr (seeded_config, session_files) = Inr (resumed_fuzzer, session_files)"
  unfolding pre_exec_after_super [where super_pre_exec = Inr and abspath = "\<lambda>p. p"
        and obj = seeded_config and files = session_files,
        OF seeded_super seeded_base(1) harness_nonempty seeded_base(2) seeded_out(2)]
  by (simp add: Let_def sample_paths session_listing [simplified] session_dirs
        set_binary_def seeded_config_def sample_fuzzer_def sample_config_def resumed_fuzzer_def)

theorem pre_exec_session_cases_witness:
  "(case pre_exec (\<lambda>p. p) Inr (seeded_config, fresh_files) of
      Inr (self', fs') \<Rightarrow>
        ''/work/out/sync_dir/queue'' \<in> fs' \<and> ''/work/out/the_fuzzer/crashes'' \<in> fs'
        \<and> input_seeds self' = Some ''/work/seeds'' \<and> info_log self' = []
    | Inl e \<Rightarrow> False)
   \<and> (case pre_exec (\<lambda>p. p) Inr (seeded_config, session_files) of
      Inr (self', fs') \<Rightarrow> fs' = session_files \<and> input_seeds self' = None \<and> info_log self' \<noteq> []
    | Inl e \<Rightarrow> False)
   \<and> pre_exec (\<lambda>p. p) Inr (seeded_config, broken_files) =
       Inl (FuzzFrontendError ''missing required directory'')"
proof -
  have fresh: "case pre_exec (\<lambda>p. p) Inr (seeded_config, fresh_files) of
      Inr (self', fs') \<Rightarrow>
        ''/work/out/sync_dir/queue'' \<in> fs' \<and> ''/work/out/the_fuzzer/crashes'' \<in> fs'
        \<and> input_seeds self' = Some ''/work/seeds'' \<and> info_log self' = []
    | Inl e \<Rightarrow> False"
    using pre_exec_session_cases [where super_pre_exec = Inr and abspath = "\<lambda>p. p"
        and obj = seeded_config and files = fresh_files,
        OF seeded_super seeded_base(1) harness_nonempty seeded_base(2) seeded_out(1)]
    by (simp add: Let_def seeded_base sample_paths fresh_listing [simplified] pre_exec_fresh_eval)
  have resume: "case pre_exec (\<lambda>p. p) Inr (seeded_config, session_files) of
      Inr (self', fs') \<Rightarrow> fs' = session_files \<and> input_seeds self' = None \<and> info_log self' \<noteq> []
    | Inl e \<Rightarrow> False"
    using pre_exec_session_cases [where super_pre_exec = Inr and abspath = "\<lambda>p. p"
        and obj = seeded_config and files = session_files,
        OF seeded_super seeded_base(1) harness_nonempty seeded_base(2) seeded_out(2)]
    by (simp add: Let_def seeded_base sample_paths session_listing [simplified] session_dirs
          pre_exec_resume_eval)
  have brk: "''/work/out/the_fuzzer/crashes'' \<notin> broken_files"
    by (simp add: broken_files_def)
  have broken: "pre_exec (\<lambda>p. p) Inr (seeded_config, broken_files) =
       Inl (FuzzFrontendError ''missing required directory'')"
    using pre_exec_session_cases [where super_pre_exec = Inr and abspath = "\<lambda>p. p"
        and obj = seeded_config and files = broken_files,
        OF seeded_super seeded_base(1) harness_nonempty seeded_base(2) seeded_out(3)]
    by (simp add: Let_def seeded_base sample_paths broken_listing [simplified] brk)
  show ?thesis using fresh resume broken by (intro conjI)
qed


lemma resumed_fuzzer_simps:
  "mem_limit resumed_fuzzer = 50" "max_input_size resumed_fuzzer = 8192"
  "crash_dir resumed_fuzzer = ''/work/out/the_fuzzer/crashes''"
  "push_dir resumed_fuzzer = ''/work/out/sync_dir/queue''"
  "fuzzer_args resumed_fuzzer = []" "dictionary resumed_fuzzer = None"
  "exec_timeout resumed_fuzzer = None" "post_stats resumed_fuzzer = False"
  "input_seeds resumed_fuzzer = None"
  by (simp_all add: resumed_fuzzer_def sample_fuzzer_def sample_config_def)

theorem seed_on_command_line_iff_fresh_witness:
  "pre_exec (\<lambda>p. p) Inr (seeded_config, session_files) = Inr (resumed_fuzzer, session_files)
   \<and> cmd no_float_text resumed_fuzzer =
       Inr [''-rss_limit_mb=50'', ''-max_len=8192'',
            ''-artifact_prefix=/work/out/the_fuzzer/crashes/'',
            ''-workers=1'', ''-reload=1'', ''-runs=-1'', ''/work/out/sync_dir/queue'']
   \<and> pre_exec (\<lambda>p. p) Inr (seeded_config, fresh_files) =
       Inr (sample_fuzzer\<lparr>input_seeds := Some ''/work/seeds''\<rparr>,
            fresh_files \<union> set (path_prefixes [] ''/work/out/sync_dir/queue'')
              \<union> set (path_prefixes [] ''/work/out/the_fuzzer/crashes''))
   \<and> cmd no_float_text (sample_fuzzer\<lparr>input_seeds := Some ''/work/seeds''\<rparr>) =
       Inr [''-rss_limit_mb=50'', ''-max_len=8192'',
            ''-artifact_prefix=/work/out/the_fuzzer/crashes/'',
            ''-workers=1'', ''-reload=1'', ''-runs=-1'', ''/work/out/sync_dir/queue'',
            ''/work/seeds'']"
proof -
  have resume: "cmd no_float_text resumed_fuzzer =
       Inr [''-rss_limit_mb=50'', ''-max_len=8192'',
            ''-artifact_prefix=/work/out/the_fuzzer/crashes/'',
            ''-workers=1'', ''-reload=1'', ''-runs=-1'', ''/work/out/sync_dir/queue'']"
    using seed_on_command_line_iff_fresh [where super_pre_exec = Inr and abspath = "\<lambda>p. p"
        and obj = seeded_config and files = session_files and float_text = no_float_text,
        OF pre_exec_resume_eval seeded_super]
    by (simp add: seeded_base session_listing [simplified] cmd_append_form resumed_fuzzer_simps
          str_int_50 str_int_8192)
  have fresh: "cmd no_float_text (sample_fuzzer\<lparr>input_seeds := Some ''/work/seeds''\<rparr>) =
       Inr [''-rss_limit_mb=50'', ''-max_len=8192'',
            ''-artifact_prefix=/work/out/the_fuzzer/crashes/'',
            ''-workers=1'', ''-reload=1'', ''-runs=-1'', ''/work/out/sync_dir/queue'',
            ''/work/seeds'']"
    using seed_on_command_line_iff_fresh [where super_pre_exec = Inr and abspath = "\<lambda>p. p"
        and obj = seeded_config and files = fresh_files and float_text = no_float_text,
        OF pre_exec_fresh_eval seeded_super]
    by (simp add: seeded_base fresh_listing [simplified] cmd_append_form sample_fuzzer_simps
          str_int_50 str_int_8192)
  show ?thesis
    using resume fresh pre_exec_resume_eval pre_exec_fresh_eval by (intro conjI)
qed

section \<open>Properties of the statistics parser\<close>

subsection \<open>The two loops\<close>

lemma inner_body_block_end:
  assumes "payload_of e = Inr ep" and "ep = [] \<or> ep = [CHR 0x0A]"
  shows "inner_body st e = Inr (st, True)"
  using assms by (auto simp: inner_body_def)

lemma inner_loop_append:
  assumes "inner_loop st pre = Inr (st', False)"
  shows "inner_loop st (pre @ rest) = inner_loop st' rest"
  using assms
proof (induction pre arbitrary: st)
  case Nil
  then show ?case by simp
next
  case (Cons l pre)
  then show ?case
    by (auto split: sum.splits prod.splits if_splits)
qed

lemma inner_loop_until_block_end:
  assumes "inner_loop st pre = Inr (st', False)"
      and "payload_of e = Inr ep" and "ep = [] \<or> ep = [CHR 0x0A]"
  shows "inner_loop st (pre @ e # unread) = Inr (st', True)"
  by (simp add: inner_loop_append [OF assms(1)] inner_body_block_end [OF assms(2,3)])



lemma outer_loop_done: "outer_loop True s lines = Inr (s, True)"
  by (cases lines) simp_all

lemma outer_loop_append:
  assumes "outer_loop False s before = Inr (s', False)"
  shows "outer_loop False s (before @ rest) = outer_loop False s' rest"
  using assms
proof (induction before arbitrary: s)
  case Nil
  then show ?case by simp
next
  case (Cons l before)
  then obtain s1 fin1 where body: "outer_body s l = Inr (s1, fin1)"
    by (cases "outer_body s l") auto
  show ?case
  proof (cases fin1)
    case True
    then show ?thesis using Cons.prems body by (simp add: outer_loop_done)
  next
    case False
    then have "outer_loop False s1 before = Inr (s', False)"
      using Cons.prems body by simp
    then have "outer_loop False s1 (before @ rest) = outer_loop False s' rest"
      by (rule Cons.IH)
    then show ?thesis using body False by simp
  qed
qed

lemma outer_body_skip:
  assumes "\<not> startswith l ''EXTERNAL: '' \<or> (\<exists>q. payload_of l = Inr q \<and> \<not> startswith q ''#'')"
  shows "outer_body s l = Inr (s, False)"
  using assms by (cases s) (auto simp: outer_body_def)


lemma outer_body_block:
  assumes "startswith start ''EXTERNAL: ''" and "payload_of start = Inr sp"
      and "startswith sp ''#''" and "py_index (split_ws sp) 0 = Inr tok"
      and "decode (strip_chars ''#'' tok) = Inr v"
      and "readlines 100 stream = (batch, left)"
      and "inner_loop (st(''execs_done'' \<mapsto> v)) batch = Inr (st', fin)"
  shows "outer_body (st, stream) start = Inr ((st', left), fin)"
  using assms by (simp add: outer_body_def)

text \<open>
  Every run of the outer loop that ends with \<^verbatim>\<open>done_reading\<close> set has the form of the
  theorem below: some lines are processed with the flag still false, then one line sets it,
  and the state is the one after that line, whatever follows in the batch.
\<close>

lemma outer_loop_done_form:
  assumes "outer_loop False s lines = Inr (s', True)"
  shows "\<exists>before start outer_rest s1.
           lines = before @ start # outer_rest
           \<and> outer_loop False s before = Inr (s1, False)
           \<and> outer_body s1 start = Inr (s', True)"
  using assms
proof (induction lines arbitrary: s)
  case Nil
  then show ?case by simp
next
  case (Cons l lines)
  then obtain s1 fin1 where body: "outer_body s l = Inr (s1, fin1)"
    by (cases "outer_body s l") auto
  show ?case
  proof (cases fin1)
    case True
    then have "s1 = s'" using Cons.prems body by (simp add: outer_loop_done)
    then have "l # lines = [] @ l # lines \<and> outer_loop False s [] = Inr (s, False)
                 \<and> outer_body s l = Inr (s', True)"
      using body True by simp
    then show ?thesis by blast
  next
    case False
    then have "outer_loop False s1 lines = Inr (s', True)"
      using Cons.prems body by simp
    then obtain before start outer_rest s2 where d:
      "lines = before @ start # outer_rest" "outer_loop False s1 before = Inr (s2, False)"
      "outer_body s2 start = Inr (s', True)"
      using Cons.IH by blast
    have "outer_loop False s (l # before) = Inr (s2, False)"
      using body False d(2) by simp
    then have "l # lines = (l # before) @ start # outer_rest
                 \<and> outer_loop False s (l # before) = Inr (s2, False)
                 \<and> outer_body s2 start = Inr (s', True)"
      using d by simp
    then show ?thesis by blast
  qed
qed


lemma running_simps:
  "proc (running lines) = Some \<lparr>stderr_closed = False, stderr = lines\<rparr>"
  "stats (running lines) = Map.empty"
  by (simp_all add: running_def sample_fuzzer_def sample_config_def)

subsection \<open>The lines of the sample streams\<close>

lemma info_line_skipped:
  "\<not> startswith ''INFO: libFuzzer starting\<newline>'' ''EXTERNAL: ''
   \<or> (\<exists>q. payload_of ''INFO: libFuzzer starting\<newline>'' = Inr q \<and> \<not> startswith q ''#'')"
  by (simp add: startswith_def)

lemma start_42:
  "startswith ''EXTERNAL: #42 NEW\<newline>'' ''EXTERNAL: ''"
  "payload_of ''EXTERNAL: #42 NEW\<newline>'' = Inr ''#42 NEW''"
  "startswith ''#42 NEW'' ''#''"
  "py_index (split_ws ''#42 NEW'') 0 = Inr ''#42''"
  "decode (strip_chars ''#'' ''#42'') = Inr ''42''"
  by code_simp+

lemma start_43:
  "startswith ''EXTERNAL: #43 NEW\<newline>'' ''EXTERNAL: ''"
  "payload_of ''EXTERNAL: #43 NEW\<newline>'' = Inr ''#43 NEW''"
  "startswith ''#43 NEW'' ''#''"
  "py_index (split_ws ''#43 NEW'') 0 = Inr ''#43''"
  "decode (strip_chars ''#'' ''#43'') = Inr ''43''"
  by code_simp+

lemma block_end_line: "payload_of ''EXTERNAL: \<newline>'' = Inr []"
  by code_simp

lemma rate_line:
  "payload_of ''EXTERNAL: exec/s: 1000\<newline>'' = Inr ''exec/s: 1000''"
  "contains '': '' ''exec/s: 1000''"
  "bytes_partition '': '' ''exec/s: 1000'' = Some (''exec/s'', ''1000'')"
  "decode ''1000'' = Inr ''1000''"
  by code_simp+

lemma inner_loop_rate_line:
  "inner_loop st [''EXTERNAL: exec/s: 1000\<newline>''] = Inr (st(''execs_per_sec'' \<mapsto> ''1000''), False)"
  by (simp add: inner_body_def rate_line del: bytes_partition.simps)

lemma cov_line:
  "payload_of wide_cov_line = Inr ''cov: 10''"
  "contains '': '' ''cov: 10''"
  "bytes_partition '': '' ''cov: 10'' = Some (''cov'', ''10'')"
  "decode ''10'' = Inr ''10''"
  by code_simp+

lemma inner_loop_cov_line:
  "inner_loop st [wide_cov_line] = Inr (st(''bitmap_cvg'' \<mapsto> ''10''), False)"
  by (simp add: inner_body_def cov_line del: bytes_partition.simps)

lemma two_block_batches:
  "readlines 100 two_block_stream =
     ([''INFO: libFuzzer starting\<newline>'', ''EXTERNAL: #42 NEW\<newline>'']
        @ ''EXTERNAL: #43 NEW\<newline>'' # [''EXTERNAL: #44 NEW\<newline>'', filler_line],
      [wide_cov_line, ''EXTERNAL: exec/s: 1000\<newline>'', ''EXTERNAL: \<newline>'',
       ''EXTERNAL: #77 NEW\<newline>''])"
  "readlines 100
     [wide_cov_line, ''EXTERNAL: exec/s: 1000\<newline>'', ''EXTERNAL: \<newline>'',
      ''EXTERNAL: #77 NEW\<newline>''] =
     ([wide_cov_line],
      [''EXTERNAL: exec/s: 1000\<newline>'', ''EXTERNAL: \<newline>'', ''EXTERNAL: #77 NEW\<newline>''])"
  "readlines 100
     [''EXTERNAL: exec/s: 1000\<newline>'', ''EXTERNAL: \<newline>'', ''EXTERNAL: #77 NEW\<newline>''] =
     ([''EXTERNAL: exec/s: 1000\<newline>''] @ ''EXTERNAL: \<newline>'' # [''EXTERNAL: #77 NEW\<newline>''], [])"
  by code_simp+

text \<open>The first block of \<open>two_block_stream\<close>: the line without the marker is skipped, the
  counter 42 and the coverage 10 are stored, and the flag is still false.\<close>

lemma two_block_first_block:
  "outer_loop False
     (Map.empty,
      [wide_cov_line, ''EXTERNAL: exec/s: 1000\<newline>'', ''EXTERNAL: \<newline>'',
       ''EXTERNAL: #77 NEW\<newline>''])
     [''INFO: libFuzzer starting\<newline>'', ''EXTERNAL: #42 NEW\<newline>'']
   = Inr (([''execs_done'' \<mapsto> ''42'', ''bitmap_cvg'' \<mapsto> ''10''],
           [''EXTERNAL: exec/s: 1000\<newline>'', ''EXTERNAL: \<newline>'', ''EXTERNAL: #77 NEW\<newline>'']),
          False)"
proof -
  have skip: "\<And>s. outer_body s ''INFO: libFuzzer starting\<newline>'' = Inr (s, False)"
    using info_line_skipped by (rule outer_body_skip)
  have block: "outer_body
     (Map.empty,
      [wide_cov_line, ''EXTERNAL: exec/s: 1000\<newline>'', ''EXTERNAL: \<newline>'',
       ''EXTERNAL: #77 NEW\<newline>''])
     ''EXTERNAL: #42 NEW\<newline>''
   = Inr (([''execs_done'' \<mapsto> ''42'', ''bitmap_cvg'' \<mapsto> ''10''],
           [''EXTERNAL: exec/s: 1000\<newline>'', ''EXTERNAL: \<newline>'', ''EXTERNAL: #77 NEW\<newline>'']),
          False)"
    using start_42 two_block_batches(2) inner_loop_cov_line by (rule outer_body_block)
  show ?thesis
    by (simp only: outer_loop.simps skip block if_False sum.case prod.case)
qed

subsection \<open>The end of a block\<close>

text \<open>
  Claim C6, amended: each call handles at most one block end. Once the inner loop meets a
  block-end line, no further line is processed in this call, wherever in the first batch
  the block started and whatever was processed before it (\<open>before\<close>, which may hold earlier
  block starts whose batches had no block end: a call can harvest several blocks). The
  lines that \<^verbatim>\<open>readlines\<close> had already taken off the stream, the rest of the first batch
  (\<open>outer_rest\<close>) and the rest of the inner batch (\<open>unread\<close>), are dropped and not left for
  the next call: the statistics after the call are those reached at the block end, and the
  stream holds what the \<^verbatim>\<open>readlines\<close> calls left in it (\<open>left\<close>).
\<close>

theorem populate_stats_stops_at_block_end:
  assumes "super_populate_stats obj = Inr self" and "proc self = Some p" and "\<not> stderr_closed p"
      and "readlines 100 (stderr p) = (before @ start # outer_rest, pending)"
      and "outer_loop False (stats self, pending) before = Inr ((st, stream), False)"
      and "startswith start ''EXTERNAL: ''" and "payload_of start = Inr sp"
      and "startswith sp ''#''" and "py_index (split_ws sp) 0 = Inr tok"
      and "decode (strip_chars ''#'' tok) = Inr v"
      and "readlines 100 stream = (pre @ e # unread, left)"
      and "inner_loop (st(''execs_done'' \<mapsto> v)) pre = Inr (st', False)"
      and "payload_of e = Inr ep" and "ep = [] \<or> ep = [CHR 0x0A]"
  shows "populate_stats super_populate_stats obj =
           Inr (self\<lparr>stats := st', proc := Some (p\<lparr>stderr := left\<rparr>)\<rparr>)"
proof -
  have inner: "inner_loop (st(''execs_done'' \<mapsto> v)) (pre @ e # unread) = Inr (st', True)"
    using assms(12,13,14) by (rule inner_loop_until_block_end)
  have body: "outer_body (st, stream) start = Inr ((st', left), True)"
    using assms(6,7,8,9,10,11) inner by (rule outer_body_block)
  have "outer_loop False (stats self, pending) (before @ start # outer_rest)
          = outer_loop False (st, stream) (start # outer_rest)"
    using assms(5) by (rule outer_loop_append)
  also have "\<dots> = Inr ((st', left), True)"
    by (simp add: body outer_loop_done)
  finally show ?thesis
    by (simp add: populate_stats_def assms(1,2,3,4))
qed

theorem populate_stats_stops_at_block_end_witness:
  "outcome (populate_stats Inr (running two_block_stream)) =
     Inr ([Some ''43'', Some ''1000'', None, Some ''10''], Some [])"
proof -
  have a: "\<not> stderr_closed \<lparr>stderr_closed = False, stderr = two_block_stream\<rparr>" by simp
  have b: "readlines 100 (stderr \<lparr>stderr_closed = False, stderr = two_block_stream\<rparr>) =
     ([''INFO: libFuzzer starting\<newline>'', ''EXTERNAL: #42 NEW\<newline>'']
        @ ''EXTERNAL: #43 NEW\<newline>'' # [''EXTERNAL: #44 NEW\<newline>'', filler_line],
      [wide_cov_line, ''EXTERNAL: exec/s: 1000\<newline>'', ''EXTERNAL: \<newline>'',
       ''EXTERNAL: #77 NEW\<newline>''])"
    using two_block_batches(1) by simp
  have c: "outer_loop False
     (stats (running two_block_stream),
      [wide_cov_line, ''EXTERNAL: exec/s: 1000\<newline>'', ''EXTERNAL: \<newline>'',
       ''EXTERNAL: #77 NEW\<newline>''])
     [''INFO: libFuzzer starting\<newline>'', ''EXTERNAL: #42 NEW\<newline>'']
   = Inr (([''execs_done'' \<mapsto> ''42'', ''bitmap_cvg'' \<mapsto> ''10''],
           [''EXTERNAL: exec/s: 1000\<newline>'', ''EXTERNAL: \<newline>'', ''EXTERNAL: #77 NEW\<newline>'']),
          False)"
    by (simp only: running_simps two_block_first_block)
  have d: "inner_loop ([''execs_done'' \<mapsto> ''42'', ''bitmap_cvg'' \<mapsto> ''10''](''execs_done'' \<mapsto> ''43''))
             [''EXTERNAL: exec/s: 1000\<newline>'']
           = Inr ([''execs_done'' \<mapsto> ''42'', ''bitmap_cvg'' \<mapsto> ''10''](''execs_done'' \<mapsto> ''43'',
                    ''execs_per_sec'' \<mapsto> ''1000''), False)"
    by (rule inner_loop_rate_line)
  have e: "[] = [] \<or> [] = ''\<newline>''" by simp
  show ?thesis
    using populate_stats_stops_at_block_end
      [where super_populate_stats = Inr and obj = "running two_block_stream",
       OF refl running_simps(1) a b c start_43 two_block_batches(3) d block_end_line e]
    by (simp add: outcome_def)
qed

subsection \<open>The counter of executions\<close>









subsection \<open>Lines inside a block that lack the marker\<close>

text \<open>
  Claim C2 says that the parsing step never raises, in particular not on a line without a
  colon that follows a block-start line. The inner loop takes \<^verbatim>\<open>line.split(b":", 1)[1]\<close>
  without the test for the marker that the outer loop makes first: on the stream of a
  block-start line (a batch of its own) and the line \<^verbatim>\<open>no colon here\<close> the call raises
  \<^verbatim>\<open>IndexError\<close>.
\<close>

theorem populate_stats_no_colon_raises:
  "outcome (populate_stats Inr (running [long_start, ''no colon here\<newline>''])) = Inl IndexError"
  by code_simp

text \<open>
  Claim C5 says that a line that does not begin with the marker never updates the
  statistics, whether the parser is scanning or inside a block. For the same reason as
  above, inside a block the line \<^verbatim>\<open>junk: exec/s: 7\<close>, which lacks the marker, is read as a
  rate line and stores \<^verbatim>\<open>7\<close> under \<^verbatim>\<open>execs_per_sec\<close>.
\<close>

theorem populate_stats_unmarked_line_updates:
  "outcome (populate_stats Inr (running [long_start, ''junk: exec/s: 7\<newline>'']))
     = Inr ([Some ''42'', Some ''7'', None, None], Some [])"
  by code_simp

subsection \<open>What the claims say otherwise\<close>

text \<open>
  Claim C6 says that each call harvests at most one block and that the remainder of the
  batch after a block end is left for the next call. On \<open>poll_stream\<close> the call stops at
  the block end with the counter 42 and the rate 1000; the stream is empty afterwards, and
  the next call finds nothing: the second block-start line (counter 43) and the third
  (counter 77) were read and dropped. On \<open>two_block_stream\<close> one call harvests two
  blocks: the coverage 10 is from the block of the counter 42, whose batch has no block
  end, and the counter 43 and the rate 1000 are from the next block.
\<close>

theorem populate_stats_remainder_lost_counterexample:
  "outcome (populate_stats Inr (running poll_stream))
     = Inr ([Some ''42'', Some ''1000'', None, None], Some [])
   \<and> outcome (next_poll (populate_stats Inr (running poll_stream)) [])
     = Inr ([Some ''42'', Some ''1000'', None, None], Some [])
   \<and> outcome (populate_stats Inr (running two_block_stream))
     = Inr ([Some ''43'', Some ''1000'', None, Some ''10''], Some [])"
  by code_simp


end
